theory Spec2Isabelle
  imports Complex_Main
begin

section \<open>Python values, strings and dictionaries\<close>

text \<open>
  The values that \<^verbatim>\<open>adjnews.py\<close> puts into a query parameter dictionary. Floats are only
  carried from the caller to the dictionary, never computed with, so a real number stands
  for them. \<open>PNone\<close> is Python's \<^verbatim>\<open>None\<close>.
\<close>

datatype py_value = PNone | PBool bool | PInt int | PFloat real | PStr string

text \<open>\<^verbatim>\<open>str(b)\<close> for a bool \<^verbatim>\<open>b\<close>.\<close>

definition str_bool :: "bool \<Rightarrow> string" where
  "str_bool b = (if b then ''True'' else ''False'')"

text \<open>\<^verbatim>\<open>s.lower()\<close> on ASCII text: the letters A to Z move to a to z, all else stays.\<close>

definition lower_char :: "char \<Rightarrow> char" where
  "lower_char c =
     (if 65 \<le> (of_char c :: nat) \<and> (of_char c :: nat) \<le> 90
      then char_of ((of_char c :: nat) + 32) else c)"

definition lower :: "string \<Rightarrow> string" where
  "lower s = map lower_char s"

text \<open>\<^verbatim>\<open>s.rstrip('/')\<close> and \<^verbatim>\<open>s.lstrip('/')\<close>: every slash at that end goes.\<close>

definition lstrip :: "char \<Rightarrow> string \<Rightarrow> string" where
  "lstrip c s = dropWhile (\<lambda>x. x = c) s"

definition rstrip :: "char \<Rightarrow> string \<Rightarrow> string" where
  "rstrip c s = rev (dropWhile (\<lambda>x. x = c) (rev s))"

text \<open>
  A Python \<^verbatim>\<open>dict\<close> with string keys keeps insertion order: an association list with
  distinct keys. \<^verbatim>\<open>d[k] = v\<close> overwrites in place or appends; a lookup is \<^const>\<open>map_of\<close>.
\<close>

type_synonym 'v dict = "(string \<times> 'v) list"

fun dict_set :: "string \<Rightarrow> 'v \<Rightarrow> 'v dict \<Rightarrow> 'v dict" where
  "dict_set k v [] = [(k, v)]"
| "dict_set k v ((k', v') # d) =
     (if k' = k then (k', v) # d else (k', v') # dict_set k v d)"

definition keys :: "'v dict \<Rightarrow> string set" where
  "keys d = fst ` set d"

section \<open>Exceptions\<close>

text \<open>
  An exception is its class and its message, what \<^verbatim>\<open>str(e)\<close> returns. \<open>AdjNewsError\<close>
  is the one exception class the module declares. \<open>RequestException\<close> stands for
  \<^verbatim>\<open>requests.RequestException\<close> and its subclasses (\<^verbatim>\<open>ConnectionError\<close>,
  \<^verbatim>\<open>Timeout\<close>, \<^verbatim>\<open>HTTPError\<close>, \<^verbatim>\<open>InvalidHeader\<close>, \<^verbatim>\<open>JSONDecodeError\<close> of requests
  and the others), \<open>OtherException\<close> for every other class (\<^verbatim>\<open>ValueError\<close>,
  \<^verbatim>\<open>RecursionError\<close>, \<^verbatim>\<open>UnicodeEncodeError\<close>); both carry the name of the class.
\<close>

datatype py_exception =
    AdjNewsError string
  | RequestException string string
  | OtherException string string

fun exception_class :: "py_exception \<Rightarrow> string" where
  "exception_class (AdjNewsError _) = ''AdjNewsError''"
| "exception_class (RequestException c _) = c"
| "exception_class (OtherException c _) = c"

fun exception_str :: "py_exception \<Rightarrow> string" where
  "exception_str (AdjNewsError m) = m"
| "exception_str (RequestException _ m) = m"
| "exception_str (OtherException _ m) = m"

text \<open>\<^verbatim>\<open>isinstance(e, requests.RequestException)\<close>, the test of the \<^verbatim>\<open>except\<close> clause.\<close>

fun is_RequestException :: "py_exception \<Rightarrow> bool" where
  "is_RequestException (AdjNewsError _) = False"
| "is_RequestException (RequestException _ _) = True"
| "is_RequestException (OtherException _ _) = False"

section \<open>The transport session\<close>

text \<open>
  The headers of a \<^verbatim>\<open>requests.Session\<close> are a case-insensitive ordered dictionary:
  a key is found whatever its case, and \<^verbatim>\<open>update\<close> stores each pair in turn, replacing
  the entry of the same key where there is one.
\<close>

type_synonym headers = "(string \<times> string) list"

fun header_get :: "headers \<Rightarrow> string \<Rightarrow> string option" where
  "header_get [] k = None"
| "header_get ((k', v) # hs) k = (if lower k' = lower k then Some v else header_get hs k)"

fun header_set :: "string \<Rightarrow> string \<Rightarrow> headers \<Rightarrow> headers" where
  "header_set k v [] = [(k, v)]"
| "header_set k v ((k', v') # hs) =
     (if lower k' = lower k then (k, v) # hs else (k', v') # header_set k v hs)"

fun update_headers :: "headers \<Rightarrow> headers \<Rightarrow> headers" where
  "update_headers hs [] = hs"
| "update_headers hs ((k, v) # new) = update_headers (header_set k v hs) new"

text \<open>
  Of a \<^verbatim>\<open>requests.Session\<close> the model keeps the two parts that a GET of this client
  reads or writes: the default headers and the cookie jar. The jar holds the cookies that
  apply to the API host, as pairs of name and value in the order in which they are sent;
  domain, path and expiry of a cookie are not modelled.
\<close>

type_synonym cookie = "string \<times> string"

record session =
  headers :: headers
  cookies :: "cookie list"

record client =
  api_key :: string
  session :: session

text \<open>
  The request that \<^verbatim>\<open>session.get(url, params=params)\<close> prepares and hands to the
  transport adapter: the URL, the query parameters (the library appends them to the URL,
  URL-encoded; the model keeps the two apart) and the headers.
\<close>

record request =
  req_url :: string
  req_params :: "py_value dict option"
  req_headers :: headers

text \<open>
  What \<^verbatim>\<open>json.loads\<close> makes of the body of a response: the decoded value, of any type
  \<open>'j\<close> since the client never looks into it; a \<^verbatim>\<open>json.JSONDecodeError\<close> with its
  message, for a text that is not JSON; or an exception of another class (name and
  message), as the \<^verbatim>\<open>ValueError\<close> for an integer of more than 4300 digits and the
  \<^verbatim>\<open>RecursionError\<close> for a body nested too deep.
\<close>

datatype 'j loads = Loaded 'j | NotJSON string | LoadsRaised string string

record 'j response =
  status_code :: nat
  reason :: string
  resp_url :: string
  body :: "'j loads"

text \<open>
  The transport and the remote end are a parameter. For the request handed over, the
  exchange (redirects included) brings the cookies that the library stores in the jar, and
  ends with an exception of any class (a \<^verbatim>\<open>ConnectionError\<close> or \<^verbatim>\<open>Timeout\<close> of requests,
  but also a \<^verbatim>\<open>ValueError\<close> or \<^verbatim>\<open>UnicodeEncodeError\<close> of \<^verbatim>\<open>http.client\<close> for a header it
  refuses) or with the final response.
\<close>

datatype 'j outcome = Raises py_exception | Responded "'j response"

type_synonym 'j network = "request \<Rightarrow> cookie list \<times> 'j outcome"

subsection \<open>Preparing the request\<close>

text \<open>
  \<^verbatim>\<open>prepare_url\<close> encodes the parameters with \<^verbatim>\<open>urlencode\<close>, which calls \<^verbatim>\<open>str\<close> on a
  value that is not a string. \<^verbatim>\<open>str\<close> of an integer raises \<^verbatim>\<open>ValueError\<close> when the
  integer has more digits than the interpreter's limit, 4300 by default; a value
  \<^verbatim>\<open>None\<close> is skipped, and no other value of a parameter of this client makes it raise.
  The encoded text itself is not modelled, and the URL is taken to parse, as the URLs
  of the two endpoints of the client do.
\<close>

definition int_max_str_digits :: nat where
  "int_max_str_digits = 4300"

definition str_int_raises :: "int \<Rightarrow> bool" where
  "str_int_raises n = (10 ^ int_max_str_digits \<le> abs n)"

fun str_raises :: "py_value \<Rightarrow> bool" where
  "str_raises (PInt n) = str_int_raises n"
| "str_raises _ = False"

definition int_limit_message :: string where
  "int_limit_message =
     ''Exceeds the limit (4300 digits) for integer string conversion; '' @
     ''use sys.set_int_max_str_digits() to increase the limit''"

definition encode_params :: "py_value dict option \<Rightarrow> py_exception + unit" where
  "encode_params params =
     (case params of
        None \<Rightarrow> Inr ()
      | Some d \<Rightarrow>
          if list_ex str_raises (map snd d)
          then Inl (OtherException ''ValueError'' int_limit_message)
          else Inr ())"

text \<open>
  \<^verbatim>\<open>repr\<close> of a string whose characters are below 256: in single quotes, or in double
  quotes when it holds a single quote and no double quote; the quote and the backslash
  escaped by a backslash, tab, newline and return as \<^verbatim>\<open>\t\<close>, \<^verbatim>\<open>\n\<close>, \<^verbatim>\<open>\r\<close>, and the
  other characters that are not printable as \<^verbatim>\<open>\x\<close> and two hexadecimal digits.
\<close>

definition hex_digit :: "nat \<Rightarrow> char" where
  "hex_digit n = ''0123456789abcdef'' ! (n mod 16)"

definition printable :: "char \<Rightarrow> bool" where
  "printable c =
     (let n = (of_char c :: nat)
      in (32 \<le> n \<and> n \<le> 126) \<or> (161 \<le> n \<and> n \<noteq> 173))"

definition repr_char :: "char \<Rightarrow> char \<Rightarrow> string" where
  "repr_char quote c =
     (if c = quote \<or> c = CHR 0x5C then [CHR 0x5C, c]
      else if c = CHR 0x09 then [CHR 0x5C, CHR ''t'']
      else if c = CHR 0x0A then [CHR 0x5C, CHR ''n'']
      else if c = CHR 0x0D then [CHR 0x5C, CHR ''r'']
      else if printable c then [c]
      else [CHR 0x5C, CHR ''x'', hex_digit ((of_char c :: nat) div 16),
            hex_digit ((of_char c :: nat) mod 16)])"

definition py_repr :: "string \<Rightarrow> string" where
  "py_repr s =
     (let quote = (if CHR 0x27 \<in> set s \<and> CHR 0x22 \<notin> set s then CHR 0x22 else CHR 0x27)
      in [quote] @ concat (map (repr_char quote) s) @ [quote])"

text \<open>
  \<^verbatim>\<open>check_header_validity\<close>. A name must match \<^verbatim>\<open>^[^:\s][^:\r\n]*$\<close> and a value
  \<^verbatim>\<open>^\S[^\r\n]*$|^$\<close>, where \<^verbatim>\<open>$\<close> also matches before one newline that ends the
  string and \<^verbatim>\<open>\s\<close> is the white space of Python below 256.
\<close>

definition is_space :: "char \<Rightarrow> bool" where
  "is_space c = ((of_char c :: nat) \<in> set [9, 10, 11, 12, 13, 28, 29, 30, 31, 32, 133, 160])"

definition strip_final_newline :: "string \<Rightarrow> string" where
  "strip_final_newline s = (if s \<noteq> [] \<and> last s = CHR 0x0A then butlast s else s)"

definition valid_header_name :: "string \<Rightarrow> bool" where
  "valid_header_name name =
     (case strip_final_newline name of
        [] \<Rightarrow> False
      | c # cs \<Rightarrow>
          \<not> is_space c \<and> CHR '':'' \<notin> set (c # cs) \<and> CHR 0x0D \<notin> set cs \<and> CHR 0x0A \<notin> set cs)"

definition valid_header_value :: "string \<Rightarrow> bool" where
  "valid_header_value val =
     (case strip_final_newline val of
        [] \<Rightarrow> True
      | c # cs \<Rightarrow> \<not> is_space c \<and> CHR 0x0D \<notin> set cs \<and> CHR 0x0A \<notin> set cs)"

definition invalid_header_message :: "string \<Rightarrow> string \<Rightarrow> string" where
  "invalid_header_message kind part =
     ''Invalid leading whitespace, reserved character(s), or return character(s) in header ''
       @ kind @ '': '' @ py_repr part"

fun check_header_validity :: "string \<times> string \<Rightarrow> py_exception + unit" where
  "check_header_validity (name, val) =
     (if \<not> valid_header_name name
      then Inl (RequestException ''InvalidHeader'' (invalid_header_message ''name'' name))
      else if \<not> valid_header_value val
      then Inl (RequestException ''InvalidHeader'' (invalid_header_message ''value'' val))
      else Inr ())"

text \<open>\<^verbatim>\<open>prepare_headers\<close> checks the headers in their order; the first bad one raises.\<close>

fun prepare_headers :: "headers \<Rightarrow> py_exception + unit" where
  "prepare_headers [] = Inr ()"
| "prepare_headers (h # hs) =
     (case check_header_validity h of Inl e \<Rightarrow> Inl e | Inr _ \<Rightarrow> prepare_headers hs)"

text \<open>
  \<^verbatim>\<open>prepare_cookies\<close>: when the jar is not empty and the headers have no \<^verbatim>\<open>Cookie\<close>
  yet, the cookies of the jar become the \<^verbatim>\<open>Cookie\<close> header.
\<close>

fun join_str :: "string \<Rightarrow> string list \<Rightarrow> string" where
  "join_str sep [] = []"
| "join_str sep [x] = x"
| "join_str sep (x # y # ys) = x @ sep @ join_str sep (y # ys)"

definition cookie_header :: "cookie list \<Rightarrow> string option" where
  "cookie_header jar =
     (if jar = [] then None
      else Some (join_str ''; '' (map (\<lambda>(name, val). name @ ''='' @ val) jar)))"

definition prepare_cookies :: "cookie list \<Rightarrow> headers \<Rightarrow> headers" where
  "prepare_cookies jar hs =
     (case cookie_header jar of
        None \<Rightarrow> hs
      | Some c \<Rightarrow> if header_get hs ''Cookie'' = None then header_set ''Cookie'' c hs else hs)"

text \<open>
  \<^verbatim>\<open>prepare_auth\<close>. The client passes no \<^verbatim>\<open>auth\<close> and the session trusts the
  environment, so a netrc entry for the API host is used: its \<^verbatim>\<open>HTTPBasicAuth\<close> stores
  the \<^verbatim>\<open>Basic\<close> credential under \<^verbatim>\<open>Authorization\<close>, over what is there. The parameter
  is that credential text, when there is such an entry.
\<close>

definition prepare_auth :: "string option \<Rightarrow> headers \<Rightarrow> headers" where
  "prepare_auth netrc_auth hs =
     (case netrc_auth of None \<Rightarrow> hs | Some a \<Rightarrow> header_set ''Authorization'' a hs)"

text \<open>\<^verbatim>\<open>PreparedRequest.prepare\<close>: URL and parameters, headers, cookies, authentication.\<close>

definition prepare_request ::
  "string option \<Rightarrow> session \<Rightarrow> string \<Rightarrow> py_value dict option \<Rightarrow> py_exception + request" where
  "prepare_request netrc_auth s url params =
     (case encode_params params of
        Inl e \<Rightarrow> Inl e
      | Inr _ \<Rightarrow>
          (case prepare_headers (headers s) of
             Inl e \<Rightarrow> Inl e
           | Inr _ \<Rightarrow>
               Inr \<lparr>req_url = url, req_params = params,
                    req_headers = prepare_auth netrc_auth (prepare_cookies (cookies s) (headers s))\<rparr>))"

subsection \<open>Sending it\<close>

text \<open>The cookies received go into the jar, each over the cookie of the same name.\<close>

definition store_cookies :: "cookie list \<Rightarrow> cookie list \<Rightarrow> cookie list" where
  "store_cookies jar received = fold (\<lambda>(name, val) j. dict_set name val j) received jar"

text \<open>
  \<^verbatim>\<open>session.get\<close>. When the preparation raises, nothing is handed to the transport and
  the session stays as it is. Otherwise the request is handed over and recorded in the log
  (the requests by which the library follows a redirect are not recorded), the cookies
  received are stored, and the exchange ends with the exception or the final response.
\<close>

definition session_get ::
  "'j network \<Rightarrow> string option \<Rightarrow> session \<Rightarrow> string \<Rightarrow> py_value dict option \<Rightarrow> request list
     \<Rightarrow> (py_exception + 'j response) \<times> session \<times> request list" where
  "session_get net netrc_auth s url params sent =
     (case prepare_request netrc_auth s url params of
        Inl e \<Rightarrow> (Inl e, s, sent)
      | Inr req \<Rightarrow>
          (case net req of
             (received, out) \<Rightarrow>
               (case out of Raises e \<Rightarrow> Inl e | Responded r \<Rightarrow> Inr r,
                s\<lparr>cookies := store_cookies (cookies s) received\<rparr>,
                sent @ [req])))"

text \<open>The decimal digits of a status code, as the f-string of the library prints it.\<close>

fun show_nat :: "nat \<Rightarrow> string" where
  "show_nat n =
     (if n < 10 then [char_of (48 + n)]
      else show_nat (n div 10) @ [char_of (48 + n mod 10)])"

text \<open>
  \<^verbatim>\<open>response.raise_for_status()\<close> of requests: an \<^verbatim>\<open>HTTPError\<close> for a status from 400 to
  499 (client error) and from 500 to 599 (server error), nothing for any other status.
\<close>

definition raise_for_status :: "'j response \<Rightarrow> py_exception + unit" where
  "raise_for_status r =
     (if 400 \<le> status_code r \<and> status_code r < 500
      then Inl (RequestException ''HTTPError''
                  (show_nat (status_code r) @ '' Client Error: '' @ reason r
                     @ '' for url: '' @ resp_url r))
      else if 500 \<le> status_code r \<and> status_code r < 600
      then Inl (RequestException ''HTTPError''
                  (show_nat (status_code r) @ '' Server Error: '' @ reason r
                     @ '' for url: '' @ resp_url r))
      else Inr ())"

text \<open>
  \<^verbatim>\<open>response.json()\<close>: the decoded body; for a \<^verbatim>\<open>json.JSONDecodeError\<close> the
  \<^verbatim>\<open>JSONDecodeError\<close> of requests, a \<^verbatim>\<open>RequestException\<close>, with the same message; any
  other exception of the decoder as it is.
\<close>

definition response_json :: "'j response \<Rightarrow> py_exception + 'j" where
  "response_json r =
     (case body r of
        Loaded v \<Rightarrow> Inr v
      | NotJSON m \<Rightarrow> Inl (RequestException ''JSONDecodeError'' m)
      | LoadsRaised c m \<Rightarrow> Inl (OtherException c m))"

section \<open>The client\<close>

definition BASE_URL :: string where
  "BASE_URL = ''https://api.data.adj.news''"

text \<open>
  \<^verbatim>\<open>_init_session\<close>: a fresh \<^verbatim>\<open>requests.Session()\<close> starts with the library's default
  headers, a parameter here, and an empty cookie jar, and gets the two headers of the
  client.
\<close>

definition init_session :: "headers \<Rightarrow> string \<Rightarrow> session" where
  "init_session library_defaults key =
     \<lparr>headers = update_headers library_defaults
        [(''Authorization'', ''Bearer '' @ key), (''Accept'', ''application/json'')],
      cookies = []\<rparr>"

text \<open>\<^verbatim>\<open>not api_key\<close> for an optional string: true of \<^verbatim>\<open>None\<close> and of the empty string.\<close>

fun not_str :: "string option \<Rightarrow> bool" where
  "not_str None = True"
| "not_str (Some s) = (s = [])"

text \<open>
  \<^verbatim>\<open>__init__\<close>. The environment is the process environment after \<^verbatim>\<open>load_dotenv()\<close>;
  the log of requests sent is threaded through and comes back as it went in. The variable
  \<^verbatim>\<open>api_key\<close> is \<open>api_key0\<close> on entry and \<open>api_key1\<close> after the fallback; a value that
  gets past the two tests is a non-empty string, so the \<open>None\<close> case of the last
  \<open>case\<close> is never taken.
\<close>

definition AdjNews_init ::
  "headers \<Rightarrow> string option \<Rightarrow> (string \<Rightarrow> string option) \<Rightarrow> request list
     \<Rightarrow> (py_exception + client) \<times> request list" where
  "AdjNews_init library_defaults api_key0 environ sent =
     (let api_key1 = (if not_str api_key0 then environ ''ADJ_NEWS_API_KEY'' else api_key0)
      in if not_str api_key0 \<and> not_str api_key1
         then (Inl (AdjNewsError ''ADJ_NEWS_API_KEY Not Found.''), sent)
         else (case api_key1 of
                 None \<Rightarrow> (Inl (AdjNewsError ''ADJ_NEWS_API_KEY Not Found.''), sent)
               | Some k \<Rightarrow>
                   (Inr \<lparr>api_key = k, session = init_session library_defaults k\<rparr>, sent)))"

text \<open>The URL of \<^verbatim>\<open>_get\<close>: \<^verbatim>\<open>f"{base.rstrip('/')}/{endpoint.lstrip('/')}"\<close>.\<close>

definition join_url :: "string \<Rightarrow> string \<Rightarrow> string" where
  "join_url base endpoint = rstrip CHR ''/'' base @ ''/'' @ lstrip CHR ''/'' endpoint"

text \<open>
  \<^verbatim>\<open>_get\<close>. The state is the client object and the log of requests sent. The body of
  the \<^verbatim>\<open>try\<close> is the three library calls in sequence; the \<^verbatim>\<open>except\<close> clause turns a
  \<^verbatim>\<open>RequestException\<close> into an \<open>AdjNewsError\<close> and lets anything else through. The
  client's session is the session as the call leaves it.
\<close>

definition try_body ::
  "'j network \<Rightarrow> string option \<Rightarrow> session \<Rightarrow> string \<Rightarrow> py_value dict option \<Rightarrow> request list
     \<Rightarrow> (py_exception + 'j) \<times> session \<times> request list" where
  "try_body net netrc_auth s url params sent =
     (case session_get net netrc_auth s url params sent of
        (Inl e, s', sent') \<Rightarrow> (Inl e, s', sent')
      | (Inr response, s', sent') \<Rightarrow>
          (case raise_for_status response of
             Inl e \<Rightarrow> (Inl e, s', sent')
           | Inr _ \<Rightarrow> (response_json response, s', sent')))"

definition get ::
  "'j network \<Rightarrow> string option \<Rightarrow> string \<Rightarrow> py_value dict option \<Rightarrow> client \<times> request list
     \<Rightarrow> (py_exception + 'j) \<times> client \<times> request list" where
  "get net netrc_auth endpoint params st =
     (case st of (self, sent) \<Rightarrow>
        (let url = join_url BASE_URL endpoint
         in (case try_body net netrc_auth (session self) url params sent of
               (Inl e, s', sent') \<Rightarrow>
                 (if is_RequestException e
                  then Inl (AdjNewsError (''GET '' @ url @ '' failed: '' @ exception_str e))
                  else Inl e, self\<lparr>session := s'\<rparr>, sent')
             | (Inr v, s', sent') \<Rightarrow> (Inr v, self\<lparr>session := s'\<rparr>, sent'))))"

text \<open>\<^verbatim>\<open>semantic_search\<close>: the dictionary it builds, and the call.\<close>

definition semantic_search_params :: "string \<Rightarrow> int \<Rightarrow> bool \<Rightarrow> py_value dict" where
  "semantic_search_params query limit include_context =
     [(''q'', PStr query), (''limit'', PInt limit), (''include_context'', PBool include_context)]"

definition semantic_search ::
  "'j network \<Rightarrow> string option \<Rightarrow> string \<Rightarrow> int \<Rightarrow> bool \<Rightarrow> client \<times> request list
     \<Rightarrow> (py_exception + 'j) \<times> client \<times> request list" where
  "semantic_search net netrc_auth query limit include_context st =
     get net netrc_auth ''/api/search/query''
       (Some (semantic_search_params query limit include_context)) st"

text \<open>The defaults of its signature.\<close>

definition semantic_search_limit_default :: int where
  "semantic_search_limit_default = 10"

definition semantic_search_include_context_default :: bool where
  "semantic_search_include_context_default = False"

text \<open>
  \<^verbatim>\<open>list_markets\<close>. Its sixteen keyword arguments are a record, with the defaults of the
  signature in \<open>list_markets_defaults\<close>; an optional argument left out is \<open>None\<close>.
\<close>

record list_markets_args =
  limit :: int
  offset :: int
  platform :: "string option"
  status :: "string option"
  category :: "string option"
  market_type :: "string option"
  keyword :: "string option"
  tag :: "string option"
  created_after :: "string option"
  created_before :: "string option"
  probability_min :: "real option"
  probability_max :: "real option"
  sort_by :: string
  sort_dir :: string
  include_closed :: bool
  include_resolved :: bool

definition list_markets_defaults :: list_markets_args where
  "list_markets_defaults =
     \<lparr>limit = 5, offset = 0, platform = None, status = None, category = None,
      market_type = None, keyword = None, tag = None, created_after = None,
      created_before = None, probability_min = None, probability_max = None,
      sort_by = ''updated_at'', sort_dir = ''desc'', include_closed = False,
      include_resolved = False\<rparr>"

fun opt_str :: "string option \<Rightarrow> py_value" where
  "opt_str None = PNone"
| "opt_str (Some s) = PStr s"

fun opt_float :: "real option \<Rightarrow> py_value" where
  "opt_float None = PNone"
| "opt_float (Some x) = PFloat x"

definition required_params :: "list_markets_args \<Rightarrow> py_value dict" where
  "required_params a =
     [(''limit'', PInt (limit a)),
      (''offset'', PInt (offset a)),
      (''sort_by'', PStr (sort_by a)),
      (''sort_dir'', PStr (sort_dir a)),
      (''include_closed'', PStr (lower (str_bool (include_closed a)))),
      (''include_resolved'', PStr (lower (str_bool (include_resolved a))))]"

definition optional_params :: "list_markets_args \<Rightarrow> py_value dict" where
  "optional_params a =
     [(''platform'', opt_str (platform a)),
      (''status'', opt_str (status a)),
      (''category'', opt_str (category a)),
      (''market_type'', opt_str (market_type a)),
      (''keyword'', opt_str (keyword a)),
      (''tag'', opt_str (tag a)),
      (''created_after'', opt_str (created_after a)),
      (''created_before'', opt_str (created_before a)),
      (''probability_min'', opt_float (probability_min a)),
      (''probability_max'', opt_float (probability_max a))]"

text \<open>The loop \<^verbatim>\<open>for key, value in optional_params.items(): if value is not None: ...\<close>.\<close>

fun add_optional :: "py_value dict \<Rightarrow> py_value dict \<Rightarrow> py_value dict" where
  "add_optional params [] = params"
| "add_optional params ((key, val) # rest) =
     add_optional (if val \<noteq> PNone then dict_set key val params else params) rest"

definition list_markets_params :: "list_markets_args \<Rightarrow> py_value dict" where
  "list_markets_params a = add_optional (required_params a) (optional_params a)"

definition list_markets ::
  "'j network \<Rightarrow> string option \<Rightarrow> list_markets_args \<Rightarrow> client \<times> request list
     \<Rightarrow> (py_exception + 'j) \<times> client \<times> request list" where
  "list_markets net netrc_auth a st =
     get net netrc_auth ''/api/markets'' (Some (list_markets_params a)) st"

section \<open>Stripping and joining\<close>

lemma lstrip_replicate: "lstrip c (replicate m c @ p) = lstrip c p"
  by (induction m) (simp_all add: lstrip_def)

lemma rstrip_replicate: "rstrip c (b @ replicate n c) = rstrip c b"
proof -
  have "dropWhile (\<lambda>x. x = c) (replicate n c @ rev b) = dropWhile (\<lambda>x. x = c) (rev b)"
    by (induction n) simp_all
  then show ?thesis by (simp add: rstrip_def)
qed

lemma lstrip_no_leading: "lstrip c s \<noteq> c # t"
proof
  assume a: "lstrip c s = c # t"
  then have "dropWhile (\<lambda>x. x = c) s \<noteq> []" by (simp add: lstrip_def)
  then have "hd (dropWhile (\<lambda>x. x = c) s) \<noteq> c" by (rule hd_dropWhile)
  with a show False by (simp add: lstrip_def)
qed

lemma rstrip_no_trailing: "rstrip c s \<noteq> t @ [c]"
proof
  assume "rstrip c s = t @ [c]"
  then have "rev (rstrip c s) = c # rev t" by simp
  then have "lstrip c (rev s) = c # rev t" by (simp add: rstrip_def lstrip_def)
  then show False by (simp add: lstrip_no_leading)
qed

lemma lstrip_decomp: "\<exists>m. s = replicate m c @ lstrip c s"
proof (induction s)
  case Nil
  then show ?case by (simp add: lstrip_def)
next
  case (Cons x s)
  show ?case
  proof (cases "x = c")
    case True
    from Cons obtain m where "s = replicate m c @ lstrip c s" by blast
    then have "x # s = replicate (Suc m) c @ lstrip c (x # s)"
      using True by (simp add: lstrip_def)
    then show ?thesis by blast
  next
    case False
    then have "x # s = replicate 0 c @ lstrip c (x # s)" by (simp add: lstrip_def)
    then show ?thesis by blast
  qed
qed

lemma rstrip_decomp: "\<exists>n. s = rstrip c s @ replicate n c"
proof -
  obtain n where "rev s = replicate n c @ lstrip c (rev s)" using lstrip_decomp by blast
  then have "rev (rev s) = rev (replicate n c @ lstrip c (rev s))" by simp
  then have "s = rstrip c s @ replicate n c" by (simp add: rstrip_def lstrip_def)
  then show ?thesis by blast
qed

text \<open>
  Claim C6. The URL is the base without its trailing slashes, one slash, and the endpoint
  without its leading slashes. Slashes added at the end of the base or in front of the
  endpoint do not change the URL; the two joins of the specification give
  \<^verbatim>\<open>https://api.example.com/api/markets\<close>; and between what is left of the base (which
  does not end in a slash) and what is left of the endpoint (which does not start with
  one) stands exactly one slash.
\<close>

theorem join_url_one_slash:
  "join_url (b @ replicate n CHR ''/'') (replicate m CHR ''/'' @ p) = join_url b p
   \<and> join_url ''https://api.example.com/'' ''/api/markets'' = ''https://api.example.com/api/markets''
   \<and> join_url ''https://api.example.com'' ''api/markets'' = ''https://api.example.com/api/markets''
   \<and> (\<exists>b' p' i j. b = b' @ replicate i CHR ''/'' \<and> p = replicate j CHR ''/'' @ p'
         \<and> join_url b p = b' @ ''/'' @ p'
         \<and> (\<forall>t. b' \<noteq> t @ ''/'') \<and> (\<forall>t. p' \<noteq> CHR ''/'' # t))"
proof -
  have 1: "join_url (b @ replicate n CHR ''/'') (replicate m CHR ''/'' @ p) = join_url b p"
    by (simp add: join_url_def lstrip_replicate rstrip_replicate)
  have 2: "join_url ''https://api.example.com/'' ''/api/markets'' = ''https://api.example.com/api/markets''"
    by (simp add: join_url_def rstrip_def lstrip_def)
  have 3: "join_url ''https://api.example.com'' ''api/markets'' = ''https://api.example.com/api/markets''"
    by (simp add: join_url_def rstrip_def lstrip_def)
  obtain i where i: "b = rstrip CHR ''/'' b @ replicate i CHR ''/''"
    using rstrip_decomp by blast
  obtain j where j: "p = replicate j CHR ''/'' @ lstrip CHR ''/'' p"
    using lstrip_decomp by blast
  have 4: "\<exists>b' p' i j. b = b' @ replicate i CHR ''/'' \<and> p = replicate j CHR ''/'' @ p'
         \<and> join_url b p = b' @ ''/'' @ p'
         \<and> (\<forall>t. b' \<noteq> t @ ''/'') \<and> (\<forall>t. p' \<noteq> CHR ''/'' # t)"
    using i j rstrip_no_trailing[of "CHR ''/''" b] lstrip_no_leading[of "CHR ''/''" p]
    unfolding join_url_def by blast
  from 1 2 3 4 show ?thesis by blast
qed

section \<open>The parameters of \<^verbatim>\<open>semantic_search\<close>\<close>

text \<open>
  Claim C1. The claim asks for the string \<^verbatim>\<open>"true"\<close> or \<^verbatim>\<open>"false"\<close> under every boolean
  parameter. \<^verbatim>\<open>semantic_search\<close> stores \<^verbatim>\<open>include_context\<close> as it received it, a Python
  bool, where \<^verbatim>\<open>list_markets\<close> converts with \<^verbatim>\<open>str(...).lower()\<close>: for the query
  \<^verbatim>\<open>"inflation"\<close> with limit 5 the dictionary holds the bool under \<^verbatim>\<open>include_context\<close>,
  which is not the string.
\<close>

theorem semantic_search_sends_native_bool:
  "map_of (semantic_search_params ''inflation'' 5 False) ''include_context'' = Some (PBool False)
   \<and> map_of (semantic_search_params ''inflation'' 5 True) ''include_context'' = Some (PBool True)
   \<and> PBool False \<noteq> PStr ''false'' \<and> PBool True \<noteq> PStr ''true''"
  by (simp add: semantic_search_params_def)

text \<open>
  Claim C2. \<^verbatim>\<open>semantic_search("inflation", limit=5)\<close> builds the dictionary with
  \<^verbatim>\<open>q\<close>, \<^verbatim>\<open>limit\<close> and \<^verbatim>\<open>include_context\<close> in this order; the last value is the
  bool \<^verbatim>\<open>False\<close> of the default, so the dictionary is not the one of the claim, which has
  the string \<^verbatim>\<open>"false"\<close> there.
\<close>

theorem semantic_search_inflation_params:
  "semantic_search_params ''inflation'' 5 semantic_search_include_context_default
     = [(''q'', PStr ''inflation''), (''limit'', PInt 5), (''include_context'', PBool False)]
   \<and> semantic_search_params ''inflation'' 5 semantic_search_include_context_default
     \<noteq> [(''q'', PStr ''inflation''), (''limit'', PInt 5), (''include_context'', PStr ''false'')]"
  by (simp add: semantic_search_params_def semantic_search_include_context_default_def)

section \<open>The parameters of \<^verbatim>\<open>list_markets\<close>\<close>

lemma map_of_dict_set: "map_of (dict_set k v d) = (map_of d)(k \<mapsto> v)"
  by (induction d) (auto simp: fun_eq_iff)

lemma keys_dom: "keys d = dom (map_of d)"
  by (simp add: keys_def dom_map_of_conv_image_fst)

lemma map_of_add_optional:
  "distinct (map fst os) \<Longrightarrow>
   map_of (add_optional ps os) k =
     (case map_of os k of
        None \<Rightarrow> map_of ps k
      | Some v \<Rightarrow> if v = PNone then map_of ps k else Some v)"
proof (induction os arbitrary: ps)
  case Nil
  then show ?case by simp
next
  case (Cons x os)
  obtain key val where x: "x = (key, val)" by (cases x)
  from Cons.prems x have d: "distinct (map fst os)" and nk: "key \<notin> fst ` set os" by auto
  from nk have none: "map_of os key = None" by (simp add: map_of_eq_None_iff)
  show ?case
    using Cons.IH[OF d, of "if val \<noteq> PNone then dict_set key val ps else ps"] none
    by (auto simp: x map_of_dict_set split: option.splits)
qed

lemma distinct_optional: "distinct (map fst (optional_params a))"
  by (simp add: optional_params_def)

lemma list_markets_lookup:
  "map_of (list_markets_params a) k =
     (case map_of (optional_params a) k of
        None \<Rightarrow> map_of (required_params a) k
      | Some v \<Rightarrow> if v = PNone then map_of (required_params a) k else Some v)"
  unfolding list_markets_params_def by (rule map_of_add_optional[OF distinct_optional])

lemma lookup_platform: "map_of (list_markets_params a) ''platform'' = map_option PStr (platform a)"
  by (cases "platform a") (simp_all add: list_markets_lookup optional_params_def required_params_def)

lemma lookup_probability_min:
  "map_of (list_markets_params a) ''probability_min'' = map_option PFloat (probability_min a)"
  by (cases "probability_min a") (simp_all add: list_markets_lookup optional_params_def required_params_def)

lemma lookup_limit: "map_of (list_markets_params a) ''limit'' = Some (PInt (limit a))"
  by (simp add: list_markets_lookup optional_params_def required_params_def)

lemma lookup_include_closed:
  "map_of (list_markets_params a) ''include_closed'' = Some (PStr (lower (str_bool (include_closed a))))"
  by (simp add: list_markets_lookup optional_params_def required_params_def)

lemma keys_list_markets:
  "keys (list_markets_params a) \<subseteq>
     {''limit'', ''offset'', ''sort_by'', ''sort_dir'', ''include_closed'', ''include_resolved'',
      ''platform'', ''status'', ''category'', ''market_type'', ''keyword'', ''tag'',
      ''created_after'', ''created_before'', ''probability_min'', ''probability_max''}"
proof
  fix k assume "k \<in> keys (list_markets_params a)"
  then obtain v where "map_of (list_markets_params a) k = Some v" by (auto simp: keys_dom)
  then have "k \<in> fst ` set (optional_params a) \<or> k \<in> fst ` set (required_params a)"
    by (auto simp: list_markets_lookup map_of_eq_None_iff[symmetric] split: option.splits if_splits)
  then show "k \<in> {''limit'', ''offset'', ''sort_by'', ''sort_dir'', ''include_closed'', ''include_resolved'',
      ''platform'', ''status'', ''category'', ''market_type'', ''keyword'', ''tag'',
      ''created_after'', ''created_before'', ''probability_min'', ''probability_max''}"
    by (auto simp: optional_params_def required_params_def)
qed

lemma lookup_status: "map_of (list_markets_params a) ''status'' = map_option PStr (status a)"
  by (cases "status a") (simp_all add: list_markets_lookup optional_params_def required_params_def)

lemma lookup_category: "map_of (list_markets_params a) ''category'' = map_option PStr (category a)"
  by (cases "category a") (simp_all add: list_markets_lookup optional_params_def required_params_def)

lemma lookup_market_type: "map_of (list_markets_params a) ''market_type'' = map_option PStr (market_type a)"
  by (cases "market_type a") (simp_all add: list_markets_lookup optional_params_def required_params_def)

lemma lookup_keyword: "map_of (list_markets_params a) ''keyword'' = map_option PStr (keyword a)"
  by (cases "keyword a") (simp_all add: list_markets_lookup optional_params_def required_params_def)

lemma lookup_tag: "map_of (list_markets_params a) ''tag'' = map_option PStr (tag a)"
  by (cases "tag a") (simp_all add: list_markets_lookup optional_params_def required_params_def)

lemma lookup_created_after: "map_of (list_markets_params a) ''created_after'' = map_option PStr (created_after a)"
  by (cases "created_after a") (simp_all add: list_markets_lookup optional_params_def required_params_def)

lemma lookup_created_before: "map_of (list_markets_params a) ''created_before'' = map_option PStr (created_before a)"
  by (cases "created_before a") (simp_all add: list_markets_lookup optional_params_def required_params_def)

lemma lookup_probability_max:
  "map_of (list_markets_params a) ''probability_max'' = map_option PFloat (probability_max a)"
  by (cases "probability_max a") (simp_all add: list_markets_lookup optional_params_def required_params_def)

lemma lookup_required:
  "map_of (list_markets_params a) ''limit'' = Some (PInt (limit a))"
  "map_of (list_markets_params a) ''offset'' = Some (PInt (offset a))"
  "map_of (list_markets_params a) ''sort_by'' = Some (PStr (sort_by a))"
  "map_of (list_markets_params a) ''sort_dir'' = Some (PStr (sort_dir a))"
  "map_of (list_markets_params a) ''include_closed'' = Some (PStr (lower (str_bool (include_closed a))))"
  "map_of (list_markets_params a) ''include_resolved'' = Some (PStr (lower (str_bool (include_resolved a))))"
  by (simp_all add: list_markets_lookup optional_params_def required_params_def)

lemmas lookup_optional = lookup_platform lookup_status lookup_category lookup_market_type
  lookup_keyword lookup_tag lookup_created_after lookup_created_before
  lookup_probability_min lookup_probability_max

lemma in_keys: "(k \<in> keys d) = (map_of d k \<noteq> None)"
  by (auto simp: keys_dom)

lemma lower_str_bool_True: "lower (str_bool True) = ''true''"
  by code_simp

lemma lower_str_bool_False: "lower (str_bool False) = ''false''"
  by code_simp

text \<open>
  Claim C5. The six required or defaulted names are keys of the dictionary of every call,
  each with the value of its argument (the two booleans as \<^verbatim>\<open>"true"\<close> or \<^verbatim>\<open>"false"\<close>);
  each of the ten optional names is a key exactly when its argument is not \<^verbatim>\<open>None\<close>, and
  then holds that argument, so an argument left out puts nothing under its name; and the
  dictionary has no other key.
\<close>

theorem list_markets_params_keys:
  "{''limit'', ''offset'', ''sort_by'', ''sort_dir'', ''include_closed'', ''include_resolved''}
     \<subseteq> keys (list_markets_params a)
   \<and> map_of (list_markets_params a) ''limit'' = Some (PInt (limit a))
   \<and> map_of (list_markets_params a) ''offset'' = Some (PInt (offset a))
   \<and> map_of (list_markets_params a) ''sort_by'' = Some (PStr (sort_by a))
   \<and> map_of (list_markets_params a) ''sort_dir'' = Some (PStr (sort_dir a))
   \<and> map_of (list_markets_params a) ''include_closed''
       = Some (PStr (if include_closed a then ''true'' else ''false''))
   \<and> map_of (list_markets_params a) ''include_resolved''
       = Some (PStr (if include_resolved a then ''true'' else ''false''))
   \<and> (''platform'' \<in> keys (list_markets_params a)) = (platform a \<noteq> None)
   \<and> (''status'' \<in> keys (list_markets_params a)) = (status a \<noteq> None)
   \<and> (''category'' \<in> keys (list_markets_params a)) = (category a \<noteq> None)
   \<and> (''market_type'' \<in> keys (list_markets_params a)) = (market_type a \<noteq> None)
   \<and> (''keyword'' \<in> keys (list_markets_params a)) = (keyword a \<noteq> None)
   \<and> (''tag'' \<in> keys (list_markets_params a)) = (tag a \<noteq> None)
   \<and> (''created_after'' \<in> keys (list_markets_params a)) = (created_after a \<noteq> None)
   \<and> (''created_before'' \<in> keys (list_markets_params a)) = (created_before a \<noteq> None)
   \<and> (''probability_min'' \<in> keys (list_markets_params a)) = (probability_min a \<noteq> None)
   \<and> (''probability_max'' \<in> keys (list_markets_params a)) = (probability_max a \<noteq> None)
   \<and> map_of (list_markets_params a) ''platform'' = map_option PStr (platform a)
   \<and> map_of (list_markets_params a) ''status'' = map_option PStr (status a)
   \<and> map_of (list_markets_params a) ''category'' = map_option PStr (category a)
   \<and> map_of (list_markets_params a) ''market_type'' = map_option PStr (market_type a)
   \<and> map_of (list_markets_params a) ''keyword'' = map_option PStr (keyword a)
   \<and> map_of (list_markets_params a) ''tag'' = map_option PStr (tag a)
   \<and> map_of (list_markets_params a) ''created_after'' = map_option PStr (created_after a)
   \<and> map_of (list_markets_params a) ''created_before'' = map_option PStr (created_before a)
   \<and> map_of (list_markets_params a) ''probability_min'' = map_option PFloat (probability_min a)
   \<and> map_of (list_markets_params a) ''probability_max'' = map_option PFloat (probability_max a)
   \<and> keys (list_markets_params a) \<subseteq>
     {''limit'', ''offset'', ''sort_by'', ''sort_dir'', ''include_closed'', ''include_resolved'',
      ''platform'', ''status'', ''category'', ''market_type'', ''keyword'', ''tag'',
      ''created_after'', ''created_before'', ''probability_min'', ''probability_max''}"
proof -
  have b: "lower (str_bool x) = (if x then ''true'' else ''false'')" for x
    by (cases x) (simp_all add: lower_str_bool_True lower_str_bool_False)
  show ?thesis
    using keys_list_markets[of a] by (simp add: in_keys lookup_required lookup_optional b)
qed

text \<open>
  Claim C10. Only \<^verbatim>\<open>None\<close> leaves an optional parameter out: the empty string for
  \<^verbatim>\<open>platform\<close> and the float 0.0 for \<^verbatim>\<open>probability_min\<close> are stored under their names,
  as is any string or float given for one of the ten optional parameters.
\<close>

theorem list_markets_falsy_values_included:
  "map_of (list_markets_params (a\<lparr>platform := Some []\<rparr>)) ''platform'' = Some (PStr [])
   \<and> map_of (list_markets_params (a\<lparr>probability_min := Some 0\<rparr>)) ''probability_min'' = Some (PFloat 0)
   \<and> map_of (list_markets_params (a\<lparr>platform := Some s\<rparr>)) ''platform'' = Some (PStr s)
   \<and> map_of (list_markets_params (a\<lparr>status := Some s\<rparr>)) ''status'' = Some (PStr s)
   \<and> map_of (list_markets_params (a\<lparr>category := Some s\<rparr>)) ''category'' = Some (PStr s)
   \<and> map_of (list_markets_params (a\<lparr>market_type := Some s\<rparr>)) ''market_type'' = Some (PStr s)
   \<and> map_of (list_markets_params (a\<lparr>keyword := Some s\<rparr>)) ''keyword'' = Some (PStr s)
   \<and> map_of (list_markets_params (a\<lparr>tag := Some s\<rparr>)) ''tag'' = Some (PStr s)
   \<and> map_of (list_markets_params (a\<lparr>created_after := Some s\<rparr>)) ''created_after'' = Some (PStr s)
   \<and> map_of (list_markets_params (a\<lparr>created_before := Some s\<rparr>)) ''created_before'' = Some (PStr s)
   \<and> map_of (list_markets_params (a\<lparr>probability_min := Some x\<rparr>)) ''probability_min'' = Some (PFloat x)
   \<and> map_of (list_markets_params (a\<lparr>probability_max := Some x\<rparr>)) ''probability_max'' = Some (PFloat x)"
  by (simp add: lookup_optional)

section \<open>Construction\<close>

lemma header_get_set:
  "header_get (header_set k v hs) k' = (if lower k = lower k' then Some v else header_get hs k')"
  by (induction hs) auto

lemma lower_header_names: "lower ''Authorization'' \<noteq> lower ''Accept''"
  by code_simp

lemma init_session_headers:
  "header_get (headers (init_session d k)) ''Authorization'' = Some (''Bearer '' @ k)"
  "header_get (headers (init_session d k)) ''Accept'' = Some ''application/json''"
  using lower_header_names by (simp_all add: init_session_def header_get_set)

text \<open>
  Claim C3. When the credential argument is \<^verbatim>\<open>None\<close> or empty and the environment
  variable \<^verbatim>\<open>ADJ_NEWS_API_KEY\<close> is unset or empty, \<^verbatim>\<open>__init__\<close> raises the client's
  error with the message \<^verbatim>\<open>ADJ_NEWS_API_KEY Not Found.\<close> (the configuration error of
  the specification) and returns no client.
\<close>

theorem init_fails_without_credential:
  assumes "k = None \<or> k = Some []"
    and "environ ''ADJ_NEWS_API_KEY'' = None \<or> environ ''ADJ_NEWS_API_KEY'' = Some []"
  shows "AdjNews_init d k environ sent = (Inl (AdjNewsError ''ADJ_NEWS_API_KEY Not Found.''), sent)
         \<and> (\<forall>c. fst (AdjNews_init d k environ sent) \<noteq> Inr c)"
  using assms by (auto simp: AdjNews_init_def)

theorem init_fails_without_credential_witness:
  "AdjNews_init [] None Map.empty [] = (Inl (AdjNewsError ''ADJ_NEWS_API_KEY Not Found.''), [])
   \<and> AdjNews_init [] (Some []) [''ADJ_NEWS_API_KEY'' \<mapsto> []] []
       = (Inl (AdjNewsError ''ADJ_NEWS_API_KEY Not Found.''), [])"
  using init_fails_without_credential[of None Map.empty "[]" "[]"]
    init_fails_without_credential[of "Some []" "[''ADJ_NEWS_API_KEY'' \<mapsto> []]" "[]" "[]"]
  by simp

section \<open>The GET of the session and \<^verbatim>\<open>_get\<close>\<close>

lemma session_get_fst:
  "fst (session_get net netrc_auth s url params sent) =
     (case prepare_request netrc_auth s url params of
        Inl e \<Rightarrow> Inl e
      | Inr req \<Rightarrow> (case snd (net req) of Raises e \<Rightarrow> Inl e | Responded r \<Rightarrow> Inr r))"
  by (simp add: session_get_def split: sum.splits prod.splits)


lemma session_get_sent:
  "snd (snd (session_get net netrc_auth s url params sent)) =
     (case prepare_request netrc_auth s url params of
        Inl e \<Rightarrow> sent
      | Inr req \<Rightarrow> sent @ [req])"
  by (simp add: session_get_def split: sum.splits prod.splits)

lemma try_body_fst:
  "fst (try_body net netrc_auth s url params sent) =
     (case fst (session_get net netrc_auth s url params sent) of
        Inl e \<Rightarrow> Inl e
      | Inr r \<Rightarrow> (case raise_for_status r of Inl e \<Rightarrow> Inl e | Inr _ \<Rightarrow> response_json r))"
  by (simp add: try_body_def split: sum.splits prod.splits)

lemma try_body_snd:
  "snd (try_body net netrc_auth s url params sent) = snd (session_get net netrc_auth s url params sent)"
  by (simp add: try_body_def split: sum.splits prod.splits)

lemma get_fst:
  "fst (get net netrc_auth endpoint params (self, sent)) =
     (case fst (try_body net netrc_auth (session self) (join_url BASE_URL endpoint) params sent) of
        Inl e \<Rightarrow>
          if is_RequestException e
          then Inl (AdjNewsError (''GET '' @ join_url BASE_URL endpoint @ '' failed: '' @ exception_str e))
          else Inl e
      | Inr v \<Rightarrow> Inr v)"
  by (simp add: get_def Let_def split: sum.splits prod.splits)

lemma get_snd:
  "snd (get net netrc_auth endpoint params (self, sent)) =
     (self\<lparr>session := fst (snd (session_get net netrc_auth (session self)
                                    (join_url BASE_URL endpoint) params sent))\<rparr>,
      snd (snd (session_get net netrc_auth (session self) (join_url BASE_URL endpoint) params sent)))"
proof -
  obtain r s' sent' where
    t: "try_body net netrc_auth (session self) (join_url BASE_URL endpoint) params sent = (r, s', sent')"
    by (cases "try_body net netrc_auth (session self) (join_url BASE_URL endpoint) params sent")
  then have "snd (session_get net netrc_auth (session self) (join_url BASE_URL endpoint) params sent)
      = (s', sent')"
    using try_body_snd[of net netrc_auth "session self" "join_url BASE_URL endpoint" params sent]
    by simp
  with t show ?thesis by (cases r) (simp_all add: get_def Let_def)
qed


lemma get_sent:
  "snd (snd (get net netrc_auth endpoint params (self, sent))) =
     snd (snd (session_get net netrc_auth (session self) (join_url BASE_URL endpoint) params sent))"
  by (simp add: get_snd)

lemma raise_for_status_cases:
  "raise_for_status r =
     (if 400 \<le> status_code r \<and> status_code r < 600
      then Inl (RequestException ''HTTPError'' (show_nat (status_code r)
             @ (if status_code r < 500 then '' Client Error: '' else '' Server Error: '')
             @ reason r @ '' for url: '' @ resp_url r))
      else Inr ())"
  by (simp add: raise_for_status_def)

lemma raise_for_status_ok:
  "\<not> (400 \<le> status_code r \<and> status_code r < 600) \<Longrightarrow> raise_for_status r = Inr ()"
  by (simp add: raise_for_status_cases)

lemma get_wraps:
  "fst (session_get net netrc_auth (session self) (join_url BASE_URL endpoint) params sent) = Inl e \<Longrightarrow> is_RequestException e \<Longrightarrow>
   fst (get net netrc_auth endpoint params (self, sent)) = Inl (AdjNewsError (''GET '' @ join_url BASE_URL endpoint @ '' failed: '' @ exception_str e))"
  by (simp add: get_fst try_body_fst)

lemma get_passes:
  "fst (session_get net netrc_auth (session self) (join_url BASE_URL endpoint) params sent) = Inl e \<Longrightarrow> \<not> is_RequestException e \<Longrightarrow> fst (get net netrc_auth endpoint params (self, sent)) = Inl e"
  by (simp add: get_fst try_body_fst)

lemma get_http_error:
  "fst (session_get net netrc_auth (session self) (join_url BASE_URL endpoint) params sent) = Inr r \<Longrightarrow> 400 \<le> status_code r \<Longrightarrow> status_code r < 600 \<Longrightarrow>
   fst (get net netrc_auth endpoint params (self, sent)) = Inl (AdjNewsError (''GET '' @ join_url BASE_URL endpoint @ '' failed: '' @ show_nat (status_code r)
      @ (if status_code r < 500 then '' Client Error: '' else '' Server Error: '')
      @ reason r @ '' for url: '' @ resp_url r))"
  by (simp add: get_fst try_body_fst raise_for_status_cases del: show_nat.simps)

lemma get_not_json:
  "fst (session_get net netrc_auth (session self) (join_url BASE_URL endpoint) params sent) = Inr r \<Longrightarrow> \<not> (400 \<le> status_code r \<and> status_code r < 600) \<Longrightarrow> body r = NotJSON m \<Longrightarrow>
   fst (get net netrc_auth endpoint params (self, sent)) = Inl (AdjNewsError (''GET '' @ join_url BASE_URL endpoint @ '' failed: '' @ m))"
  by (simp add: get_fst try_body_fst raise_for_status_ok response_json_def)

lemma get_loads_raised:
  "fst (session_get net netrc_auth (session self) (join_url BASE_URL endpoint) params sent) = Inr r \<Longrightarrow> \<not> (400 \<le> status_code r \<and> status_code r < 600) \<Longrightarrow> body r = LoadsRaised c m \<Longrightarrow>
   fst (get net netrc_auth endpoint params (self, sent)) = Inl (OtherException c m)"
  by (simp add: get_fst try_body_fst raise_for_status_ok response_json_def)

lemma get_payload:
  "fst (session_get net netrc_auth (session self) (join_url BASE_URL endpoint) params sent) = Inr r \<Longrightarrow> \<not> (400 \<le> status_code r \<and> status_code r < 600) \<Longrightarrow> body r = Loaded v \<Longrightarrow> fst (get net netrc_auth endpoint params (self, sent)) = Inr v"
  by (simp add: get_fst try_body_fst raise_for_status_ok response_json_def)

lemma str_int_raises_limit: "str_int_raises (10 ^ int_max_str_digits)"
  unfolding str_int_raises_def by (rule abs_ge_self)

lemma str_int_raises_small: "abs n < 10 \<Longrightarrow> \<not> str_int_raises n"
proof -
  assume a: "abs n < 10"
  have "(10::int) ^ 1 \<le> 10 ^ int_max_str_digits"
    by (rule power_increasing) (simp_all add: int_max_str_digits_def)
  with a show ?thesis by (simp add: str_int_raises_def)
qed

lemma encode_params_limit:
  "encode_params (Some (semantic_search_params query (10 ^ int_max_str_digits) include_context))
     = Inl (OtherException ''ValueError'' int_limit_message)"
  by (simp add: encode_params_def semantic_search_params_def str_int_raises_limit)

lemma prepare_plain:
  "prepare_request None \<lparr>headers = [], cookies = []\<rparr> url None
     = Inr \<lparr>req_url = url, req_params = None, req_headers = []\<rparr>"
  by (simp add: prepare_request_def encode_params_def prepare_cookies_def cookie_header_def
      prepare_auth_def)

lemma show_nat_500: "show_nat 500 = ''500''"
  by code_simp

lemma markets_url: "join_url BASE_URL ''/api/markets'' = ''https://api.data.adj.news/api/markets''"
  by (simp add: join_url_def BASE_URL_def rstrip_def lstrip_def)

lemma search_url:
  "join_url BASE_URL ''/api/search/query'' = ''https://api.data.adj.news/api/search/query''"
  by (simp add: join_url_def BASE_URL_def rstrip_def lstrip_def)

lemma encode_params_defaults:
  "encode_params (Some (list_markets_params list_markets_defaults)) = Inr ()"
  by (simp add: encode_params_def list_markets_params_def required_params_def
      optional_params_def list_markets_defaults_def str_int_raises_small)

lemma prepare_with_cookie:
  "prepare_request None \<lparr>headers = [(''User-Agent'', ''python-requests/2.32.3''), (''Accept-Encoding'', ''gzip, deflate''), (''Accept'', ''application/json''), (''Connection'', ''keep-alive''), (''Authorization'', ''Bearer secret'')], cookies = [(''sid'', ''1'')]\<rparr> ''https://api.data.adj.news/api/markets'' None = Inr \<lparr>req_url = ''https://api.data.adj.news/api/markets'', req_params = None, req_headers = [(''User-Agent'', ''python-requests/2.32.3''), (''Accept-Encoding'', ''gzip, deflate''), (''Accept'', ''application/json''), (''Connection'', ''keep-alive''), (''Authorization'', ''Bearer secret'')] @ [(''Cookie'', ''sid=1'')]\<rparr>"
  by code_simp

text \<open>
  Claim C7, as the code has it. When \<^verbatim>\<open>session.get\<close> raises a
  \<^verbatim>\<open>requests.RequestException\<close> (a connection error, a timeout, a header the library
  refuses), \<^verbatim>\<open>_get\<close> raises the client's error with the message
  \<^verbatim>\<open>GET <url> failed: <cause>\<close>; so it does when the final status is from 400 to 599 (the
  statuses \<^verbatim>\<open>raise_for_status\<close> rejects; the cause is the library's
  \<^verbatim>\<open><status> Client Error\<close> or \<^verbatim>\<open>Server Error\<close> line), and when the body of a response of
  any other status is not JSON (the library's \<^verbatim>\<open>JSONDecodeError\<close>). An exception of
  \<^verbatim>\<open>session.get\<close> or of the decoder that is not a \<^verbatim>\<open>RequestException\<close> leaves \<^verbatim>\<open>_get\<close>
  as it is, without the URL. For a response of a status outside 400 to 599 whose body
  decodes, \<^verbatim>\<open>_get\<close> returns the decoded value.
\<close>

theorem get_failure_or_payload:
  "(fst (session_get net netrc_auth (session self) (join_url BASE_URL endpoint) params sent) = Inl e \<and> is_RequestException e \<longrightarrow>
      fst (get net netrc_auth endpoint params (self, sent)) = Inl (AdjNewsError (''GET '' @ join_url BASE_URL endpoint @ '' failed: '' @ exception_str e)))
   \<and> (fst (session_get net netrc_auth (session self) (join_url BASE_URL endpoint) params sent) = Inl e \<and> \<not> is_RequestException e \<longrightarrow>
      fst (get net netrc_auth endpoint params (self, sent)) = Inl e)
   \<and> (fst (session_get net netrc_auth (session self) (join_url BASE_URL endpoint) params sent) = Inr r \<and> 400 \<le> status_code r \<and> status_code r < 600 \<longrightarrow>
      fst (get net netrc_auth endpoint params (self, sent)) = Inl (AdjNewsError (''GET '' @ join_url BASE_URL endpoint @ '' failed: '' @ show_nat (status_code r)
             @ (if status_code r < 500 then '' Client Error: '' else '' Server Error: '')
             @ reason r @ '' for url: '' @ resp_url r)))
   \<and> (fst (session_get net netrc_auth (session self) (join_url BASE_URL endpoint) params sent) = Inr r \<and> \<not> (400 \<le> status_code r \<and> status_code r < 600) \<and> body r = NotJSON m \<longrightarrow>
      fst (get net netrc_auth endpoint params (self, sent)) = Inl (AdjNewsError (''GET '' @ join_url BASE_URL endpoint @ '' failed: '' @ m)))
   \<and> (fst (session_get net netrc_auth (session self) (join_url BASE_URL endpoint) params sent) = Inr r \<and> \<not> (400 \<le> status_code r \<and> status_code r < 600) \<and> body r = LoadsRaised c m' \<longrightarrow>
      fst (get net netrc_auth endpoint params (self, sent)) = Inl (OtherException c m'))
   \<and> (fst (session_get net netrc_auth (session self) (join_url BASE_URL endpoint) params sent) = Inr r \<and> \<not> (400 \<le> status_code r \<and> status_code r < 600) \<and> body r = Loaded v \<longrightarrow>
      fst (get net netrc_auth endpoint params (self, sent)) = Inr v)"
  using get_wraps[of net netrc_auth self endpoint params sent e]
    get_passes[of net netrc_auth self endpoint params sent e]
    get_http_error[of net netrc_auth self endpoint params sent r]
    get_not_json[of net netrc_auth self endpoint params sent r m]
    get_loads_raised[of net netrc_auth self endpoint params sent r c m']
    get_payload[of net netrc_auth self endpoint params sent r v]
  by blast

theorem get_failure_or_payload_witness:
  "fst (get (\<lambda>_. ([], Raises (RequestException ''ConnectionError'' ''refused'') :: string outcome)) None ''/api/markets'' None
          (\<lparr>api_key = ''k'', session = \<lparr>headers = [], cookies = []\<rparr>\<rparr>, []))
     = Inl (AdjNewsError ''GET https://api.data.adj.news/api/markets failed: refused'')
   \<and> fst (get (\<lambda>_. ([], Raises (RequestException ''ConnectionError'' ''refused'') :: string outcome)) None ''/api/search/query'' (Some (semantic_search_params ''inflation'' (10 ^ int_max_str_digits) False))
          (\<lparr>api_key = ''k'', session = \<lparr>headers = [], cookies = []\<rparr>\<rparr>, []))
     = Inl (OtherException ''ValueError'' int_limit_message)
   \<and> fst (get (\<lambda>_. ([], Responded \<lparr>status_code = 500, reason = ''Internal Server Error'', resp_url = ''https://api.data.adj.news/api/markets'', body = Loaded ''[]''\<rparr>)) None ''/api/markets'' None
          (\<lparr>api_key = ''k'', session = \<lparr>headers = [], cookies = []\<rparr>\<rparr>, []))
     = Inl (AdjNewsError (''GET https://api.data.adj.news/api/markets failed: '' @
          ''500 Server Error: Internal Server Error for url: '' @
          ''https://api.data.adj.news/api/markets''))
   \<and> fst (get (\<lambda>_. ([], Responded \<lparr>status_code = 200, reason = ''OK'', resp_url = ''https://api.data.adj.news/api/markets'', body = NotJSON ''Expecting value: line 1 column 1 (char 0)'' :: string loads\<rparr>)) None ''/api/markets'' None
          (\<lparr>api_key = ''k'', session = \<lparr>headers = [], cookies = []\<rparr>\<rparr>, []))
     = Inl (AdjNewsError (''GET https://api.data.adj.news/api/markets failed: '' @
          ''Expecting value: line 1 column 1 (char 0)''))
   \<and> fst (get (\<lambda>_. ([], Responded \<lparr>status_code = 200, reason = ''OK'', resp_url = ''https://api.data.adj.news/api/markets'', body = LoadsRaised ''ValueError'' ''Exceeds the limit (4300 digits) for integer string conversion: value has 5000 digits; use sys.set_int_max_str_digits() to increase the limit'' :: string loads\<rparr>)) None ''/api/markets'' None
          (\<lparr>api_key = ''k'', session = \<lparr>headers = [], cookies = []\<rparr>\<rparr>, []))
     = Inl (OtherException ''ValueError'' ''Exceeds the limit (4300 digits) for integer string conversion: value has 5000 digits; use sys.set_int_max_str_digits() to increase the limit'')
   \<and> fst (get (\<lambda>_. ([], Responded \<lparr>status_code = 200, reason = ''OK'', resp_url = ''https://api.data.adj.news/api/markets'', body = Loaded ''[]''\<rparr>)) None ''/api/markets'' None
          (\<lparr>api_key = ''k'', session = \<lparr>headers = [], cookies = []\<rparr>\<rparr>, []))
     = Inr ''[]''"
proof -
  have g1: "fst (get (\<lambda>_. ([], Raises (RequestException ''ConnectionError'' ''refused'') :: string outcome)) None ''/api/markets'' None
          (\<lparr>api_key = ''k'', session = \<lparr>headers = [], cookies = []\<rparr>\<rparr>, []))
     = Inl (AdjNewsError ''GET https://api.data.adj.news/api/markets failed: refused'')"
    using get_failure_or_payload[where net = "\<lambda>_. ([], Raises (RequestException ''ConnectionError'' ''refused'') :: string outcome)" and netrc_auth = None
      and endpoint = "''/api/markets''" and params = "None"
      and self = "\<lparr>api_key = ''k'', session = \<lparr>headers = [], cookies = []\<rparr>\<rparr>" and sent = "[]" and e = "RequestException ''ConnectionError'' ''refused''"]
    by (simp add: session_get_fst prepare_plain markets_url)
  have g2: "fst (get (\<lambda>_. ([], Raises (RequestException ''ConnectionError'' ''refused'') :: string outcome)) None ''/api/search/query'' (Some (semantic_search_params ''inflation'' (10 ^ int_max_str_digits) False))
          (\<lparr>api_key = ''k'', session = \<lparr>headers = [], cookies = []\<rparr>\<rparr>, []))
     = Inl (OtherException ''ValueError'' int_limit_message)"
    using get_failure_or_payload[where net = "\<lambda>_. ([], Raises (RequestException ''ConnectionError'' ''refused'') :: string outcome)" and netrc_auth = None
      and endpoint = "''/api/search/query''" and params = "Some (semantic_search_params ''inflation'' (10 ^ int_max_str_digits) False)"
      and self = "\<lparr>api_key = ''k'', session = \<lparr>headers = [], cookies = []\<rparr>\<rparr>" and sent = "[]" and e = "OtherException ''ValueError'' int_limit_message"]
    by (simp add: session_get_fst prepare_request_def encode_params_limit)
  have g3: "fst (get (\<lambda>_. ([], Responded \<lparr>status_code = 500, reason = ''Internal Server Error'', resp_url = ''https://api.data.adj.news/api/markets'', body = Loaded ''[]''\<rparr>)) None ''/api/markets'' None
          (\<lparr>api_key = ''k'', session = \<lparr>headers = [], cookies = []\<rparr>\<rparr>, []))
     = Inl (AdjNewsError (''GET https://api.data.adj.news/api/markets failed: '' @
          ''500 Server Error: Internal Server Error for url: '' @
          ''https://api.data.adj.news/api/markets''))"
    using get_failure_or_payload[where net = "\<lambda>_. ([], Responded \<lparr>status_code = 500, reason = ''Internal Server Error'', resp_url = ''https://api.data.adj.news/api/markets'', body = Loaded ''[]''\<rparr>)" and netrc_auth = None
      and endpoint = "''/api/markets''" and params = "None"
      and self = "\<lparr>api_key = ''k'', session = \<lparr>headers = [], cookies = []\<rparr>\<rparr>" and sent = "[]" and r = "\<lparr>status_code = 500, reason = ''Internal Server Error'', resp_url = ''https://api.data.adj.news/api/markets'', body = Loaded ''[]''\<rparr>"]
    by (simp add: session_get_fst prepare_plain markets_url show_nat_500 del: show_nat.simps)
  have g4: "fst (get (\<lambda>_. ([], Responded \<lparr>status_code = 200, reason = ''OK'', resp_url = ''https://api.data.adj.news/api/markets'', body = NotJSON ''Expecting value: line 1 column 1 (char 0)'' :: string loads\<rparr>)) None ''/api/markets'' None
          (\<lparr>api_key = ''k'', session = \<lparr>headers = [], cookies = []\<rparr>\<rparr>, []))
     = Inl (AdjNewsError (''GET https://api.data.adj.news/api/markets failed: '' @
          ''Expecting value: line 1 column 1 (char 0)''))"
    using get_failure_or_payload[where net = "\<lambda>_. ([], Responded \<lparr>status_code = 200, reason = ''OK'', resp_url = ''https://api.data.adj.news/api/markets'', body = NotJSON ''Expecting value: line 1 column 1 (char 0)'' :: string loads\<rparr>)" and netrc_auth = None
      and endpoint = "''/api/markets''" and params = "None"
      and self = "\<lparr>api_key = ''k'', session = \<lparr>headers = [], cookies = []\<rparr>\<rparr>" and sent = "[]" and r = "\<lparr>status_code = 200, reason = ''OK'', resp_url = ''https://api.data.adj.news/api/markets'', body = NotJSON ''Expecting value: line 1 column 1 (char 0)'' :: string loads\<rparr>" and m = "''Expecting value: line 1 column 1 (char 0)''"]
    by (simp add: session_get_fst prepare_plain markets_url)
  have g5: "fst (get (\<lambda>_. ([], Responded \<lparr>status_code = 200, reason = ''OK'', resp_url = ''https://api.data.adj.news/api/markets'', body = LoadsRaised ''ValueError'' ''Exceeds the limit (4300 digits) for integer string conversion: value has 5000 digits; use sys.set_int_max_str_digits() to increase the limit'' :: string loads\<rparr>)) None ''/api/markets'' None
          (\<lparr>api_key = ''k'', session = \<lparr>headers = [], cookies = []\<rparr>\<rparr>, []))
     = Inl (OtherException ''ValueError'' ''Exceeds the limit (4300 digits) for integer string conversion: value has 5000 digits; use sys.set_int_max_str_digits() to increase the limit'')"
    using get_failure_or_payload[where net = "\<lambda>_. ([], Responded \<lparr>status_code = 200, reason = ''OK'', resp_url = ''https://api.data.adj.news/api/markets'', body = LoadsRaised ''ValueError'' ''Exceeds the limit (4300 digits) for integer string conversion: value has 5000 digits; use sys.set_int_max_str_digits() to increase the limit'' :: string loads\<rparr>)" and netrc_auth = None
      and endpoint = "''/api/markets''" and params = "None"
      and self = "\<lparr>api_key = ''k'', session = \<lparr>headers = [], cookies = []\<rparr>\<rparr>" and sent = "[]" and r = "\<lparr>status_code = 200, reason = ''OK'', resp_url = ''https://api.data.adj.news/api/markets'', body = LoadsRaised ''ValueError'' ''Exceeds the limit (4300 digits) for integer string conversion: value has 5000 digits; use sys.set_int_max_str_digits() to increase the limit'' :: string loads\<rparr>" and c = "''ValueError''" and m' = "''Exceeds the limit (4300 digits) for integer string conversion: value has 5000 digits; use sys.set_int_max_str_digits() to increase the limit''"]
    by (simp add: session_get_fst prepare_plain markets_url)
  have g6: "fst (get (\<lambda>_. ([], Responded \<lparr>status_code = 200, reason = ''OK'', resp_url = ''https://api.data.adj.news/api/markets'', body = Loaded ''[]''\<rparr>)) None ''/api/markets'' None
          (\<lparr>api_key = ''k'', session = \<lparr>headers = [], cookies = []\<rparr>\<rparr>, []))
     = Inr ''[]''"
    using get_failure_or_payload[where net = "\<lambda>_. ([], Responded \<lparr>status_code = 200, reason = ''OK'', resp_url = ''https://api.data.adj.news/api/markets'', body = Loaded ''[]''\<rparr>)" and netrc_auth = None
      and endpoint = "''/api/markets''" and params = "None"
      and self = "\<lparr>api_key = ''k'', session = \<lparr>headers = [], cookies = []\<rparr>\<rparr>" and sent = "[]" and r = "\<lparr>status_code = 200, reason = ''OK'', resp_url = ''https://api.data.adj.news/api/markets'', body = Loaded ''[]''\<rparr>" and v = "''[]''"]
    by (simp add: session_get_fst prepare_plain markets_url)
  from g1 g2 g3 g4 g5 g6 show ?thesis by blast
qed

text \<open>
  Claim C7 as stated fails: a response with status 300, which is outside the success range
  200 to 299 and which the library neither follows nor rejects, and with a body that
  decodes, makes \<^verbatim>\<open>_get\<close> return the decoded body.
\<close>

theorem get_status_300_returns_payload:
  "fst (get (\<lambda>_. ([], Responded \<lparr>status_code = 300, reason = ''Multiple Choices'', resp_url = ''https://api.data.adj.news/api/markets'', body = Loaded ''[]''\<rparr>)) None ''/api/markets'' None
          (\<lparr>api_key = ''k'', session = \<lparr>headers = [], cookies = []\<rparr>\<rparr>, []))
     = Inr ''[]''
   \<and> \<not> (200 \<le> (300::nat) \<and> (300::nat) < 300)"
  by (simp add: get_fst try_body_fst session_get_fst prepare_plain raise_for_status_ok
      response_json_def)

section \<open>The requests of a constructed client\<close>

lemma lower_cookie_names:
  "lower ''Cookie'' \<noteq> lower ''Accept''"
  "lower ''Cookie'' \<noteq> lower ''Authorization''"
  "lower ''Authorization'' \<noteq> lower ''Cookie''"
  "lower ''Accept'' \<noteq> lower ''Authorization''"
  by code_simp+

lemma prepared_headers:
  "prepare_request netrc_auth s url params = Inr req \<Longrightarrow>
   req_headers req = prepare_auth netrc_auth (prepare_cookies (cookies s) (headers s))"
  by (auto simp: prepare_request_def split: sum.splits)

lemma prepared_accept:
  "header_get (prepare_auth netrc_auth (prepare_cookies jar hs)) ''Accept'' = header_get hs ''Accept''"
  using lower_header_names lower_cookie_names
  by (auto simp: prepare_auth_def prepare_cookies_def header_get_set split: option.splits)

lemma prepared_authorization:
  "header_get (prepare_auth netrc_auth (prepare_cookies jar hs)) ''Authorization'' =
     (case netrc_auth of None \<Rightarrow> header_get hs ''Authorization'' | Some a \<Rightarrow> Some a)"
  using lower_cookie_names
  by (auto simp: prepare_auth_def prepare_cookies_def header_get_set split: option.splits)

text \<open>
  Claim C4, as the code has it. For a non-empty credential \<^verbatim>\<open>__init__\<close> returns a
  client, whatever the environment holds and whatever headers a fresh session starts with;
  the session's headers give \<^verbatim>\<open>Bearer <credential>\<close> for \<^verbatim>\<open>Authorization\<close> and
  \<^verbatim>\<open>application/json\<close> for \<^verbatim>\<open>Accept\<close>; and the log of requests is after construction
  what it was before. A later \<^verbatim>\<open>_get\<close>, whatever the cookie jar holds by then, hands a
  request to the transport exactly when the library can prepare one (the parameters encode
  and the headers are valid); that request carries \<^verbatim>\<open>Accept: application/json\<close>, and
  under \<^verbatim>\<open>Authorization\<close> the bearer credential when there is no netrc entry for the
  host, the \<^verbatim>\<open>Basic\<close> credential of the entry when there is one.
\<close>

theorem init_succeeds_with_credential:
  fixes net :: "'j network"
  assumes "k \<noteq> []"
  shows "\<exists>c. AdjNews_init d (Some k) environ sent = (Inr c, sent)
           \<and> api_key c = k
           \<and> header_get (headers (session c)) ''Authorization'' = Some (''Bearer '' @ k)
           \<and> header_get (headers (session c)) ''Accept'' = Some ''application/json''
           \<and> snd (snd (get net netrc_auth endpoint params
                          (c\<lparr>session := (session c)\<lparr>cookies := jar\<rparr>\<rparr>, sent')))
               = (case prepare_request netrc_auth ((session c)\<lparr>cookies := jar\<rparr>)
                         (join_url BASE_URL endpoint) params of
                    Inl e \<Rightarrow> sent'
                  | Inr req \<Rightarrow> sent' @ [req])
           \<and> (\<forall>req. prepare_request netrc_auth ((session c)\<lparr>cookies := jar\<rparr>)
                        (join_url BASE_URL endpoint) params = Inr req \<longrightarrow>
                  header_get (req_headers req) ''Accept'' = Some ''application/json''
                  \<and> header_get (req_headers req) ''Authorization''
                      = Some (case netrc_auth of None \<Rightarrow> ''Bearer '' @ k | Some a \<Rightarrow> a))"
proof -
  let ?c = "\<lparr>api_key = k, session = init_session d k\<rparr>"
  have 1: "AdjNews_init d (Some k) environ sent = (Inr ?c, sent)"
    using assms by (simp add: AdjNews_init_def)
  have 2: "header_get (req_headers req) ''Accept'' = Some ''application/json''
           \<and> header_get (req_headers req) ''Authorization''
               = Some (case netrc_auth of None \<Rightarrow> ''Bearer '' @ k | Some a \<Rightarrow> a)"
    if "prepare_request netrc_auth ((session ?c)\<lparr>cookies := jar\<rparr>)
          (join_url BASE_URL endpoint) params = Inr req" for req
    using prepared_headers[OF that]
    by (simp add: prepared_accept prepared_authorization init_session_headers split: option.splits)
  have 3: "snd (snd (get net netrc_auth endpoint params
                          (?c\<lparr>session := (session ?c)\<lparr>cookies := jar\<rparr>\<rparr>, sent')))
               = (case prepare_request netrc_auth ((session ?c)\<lparr>cookies := jar\<rparr>)
                         (join_url BASE_URL endpoint) params of
                    Inl e \<Rightarrow> sent'
                  | Inr req \<Rightarrow> sent' @ [req])"
    by (simp add: get_sent session_get_sent)
  from 1 2 3 show ?thesis
    by (intro exI[of _ ?c]) (simp add: init_session_headers)
qed

theorem init_succeeds_with_credential_witness:
  "AdjNews_init [(''User-Agent'', ''python-requests/2.32.3''), (''Accept-Encoding'', ''gzip, deflate''), (''Accept'', ''*/*''), (''Connection'', ''keep-alive'')] (Some ''secret'') Map.empty [] = (Inr \<lparr>api_key = ''secret'', session = \<lparr>headers = [(''User-Agent'', ''python-requests/2.32.3''), (''Accept-Encoding'', ''gzip, deflate''), (''Accept'', ''application/json''), (''Connection'', ''keep-alive''), (''Authorization'', ''Bearer secret'')], cookies = []\<rparr>\<rparr>, [])
   \<and> snd (snd (get (\<lambda>_. ([], Responded \<lparr>status_code = 200, reason = ''OK'', resp_url = ''https://api.data.adj.news/api/markets'', body = Loaded ''[]''\<rparr>)) None ''/api/markets'' None (\<lparr>api_key = ''secret'', session = \<lparr>headers = [(''User-Agent'', ''python-requests/2.32.3''), (''Accept-Encoding'', ''gzip, deflate''), (''Accept'', ''application/json''), (''Connection'', ''keep-alive''), (''Authorization'', ''Bearer secret'')], cookies = [(''sid'', ''1'')]\<rparr>\<rparr>, []))) = [\<lparr>req_url = ''https://api.data.adj.news/api/markets'', req_params = None, req_headers = [(''User-Agent'', ''python-requests/2.32.3''), (''Accept-Encoding'', ''gzip, deflate''), (''Accept'', ''application/json''), (''Connection'', ''keep-alive''), (''Authorization'', ''Bearer secret'')] @ [(''Cookie'', ''sid=1'')]\<rparr>]
   \<and> header_get (req_headers \<lparr>req_url = ''https://api.data.adj.news/api/markets'', req_params = None, req_headers = [(''User-Agent'', ''python-requests/2.32.3''), (''Accept-Encoding'', ''gzip, deflate''), (''Accept'', ''application/json''), (''Connection'', ''keep-alive''), (''Authorization'', ''Bearer secret'')] @ [(''Cookie'', ''sid=1'')]\<rparr>) ''Accept'' = Some ''application/json''
   \<and> header_get (req_headers \<lparr>req_url = ''https://api.data.adj.news/api/markets'', req_params = None, req_headers = [(''User-Agent'', ''python-requests/2.32.3''), (''Accept-Encoding'', ''gzip, deflate''), (''Accept'', ''application/json''), (''Connection'', ''keep-alive''), (''Authorization'', ''Bearer secret'')] @ [(''Cookie'', ''sid=1'')]\<rparr>) ''Authorization'' = Some ''Bearer secret''"
proof -
  have c: "AdjNews_init [(''User-Agent'', ''python-requests/2.32.3''), (''Accept-Encoding'', ''gzip, deflate''), (''Accept'', ''*/*''), (''Connection'', ''keep-alive'')] (Some ''secret'') Map.empty [] = (Inr \<lparr>api_key = ''secret'', session = \<lparr>headers = [(''User-Agent'', ''python-requests/2.32.3''), (''Accept-Encoding'', ''gzip, deflate''), (''Accept'', ''application/json''), (''Connection'', ''keep-alive''), (''Authorization'', ''Bearer secret'')], cookies = []\<rparr>\<rparr>, [])"
    by code_simp
  obtain c where
    i: "AdjNews_init [(''User-Agent'', ''python-requests/2.32.3''), (''Accept-Encoding'', ''gzip, deflate''), (''Accept'', ''*/*''), (''Connection'', ''keep-alive'')] (Some ''secret'') Map.empty [] = (Inr c, [])"
    and s: "snd (snd (get (\<lambda>_. ([], Responded \<lparr>status_code = 200, reason = ''OK'', resp_url = ''https://api.data.adj.news/api/markets'', body = Loaded ''[]''\<rparr>)) None ''/api/markets'' None
                          (c\<lparr>session := (session c)\<lparr>cookies := [(''sid'', ''1'')]\<rparr>\<rparr>, [])))
               = (case prepare_request None ((session c)\<lparr>cookies := [(''sid'', ''1'')]\<rparr>)
                         (join_url BASE_URL ''/api/markets'') None of
                    Inl e \<Rightarrow> []
                  | Inr req \<Rightarrow> [] @ [req])"
    and h: "\<forall>req. prepare_request None ((session c)\<lparr>cookies := [(''sid'', ''1'')]\<rparr>)
                        (join_url BASE_URL ''/api/markets'') None = Inr req \<longrightarrow>
                  header_get (req_headers req) ''Accept'' = Some ''application/json''
                  \<and> header_get (req_headers req) ''Authorization''
                      = Some (case None of None \<Rightarrow> ''Bearer '' @ ''secret'' | Some a \<Rightarrow> a)"
    using init_succeeds_with_credential[where k = "''secret''" and d = "[(''User-Agent'', ''python-requests/2.32.3''), (''Accept-Encoding'', ''gzip, deflate''), (''Accept'', ''*/*''), (''Connection'', ''keep-alive'')]"
        and environ = Map.empty and sent = "[]" and sent' = "[]" and net = "\<lambda>_. ([], Responded \<lparr>status_code = 200, reason = ''OK'', resp_url = ''https://api.data.adj.news/api/markets'', body = Loaded ''[]''\<rparr>)"
        and netrc_auth = None and endpoint = "''/api/markets''" and params = None
        and jar = "[(''sid'', ''1'')]"]
    by auto
  from i c have e: "c = \<lparr>api_key = ''secret'', session = \<lparr>headers = [(''User-Agent'', ''python-requests/2.32.3''), (''Accept-Encoding'', ''gzip, deflate''), (''Accept'', ''application/json''), (''Connection'', ''keep-alive''), (''Authorization'', ''Bearer secret'')], cookies = []\<rparr>\<rparr>" by simp
  have p: "prepare_request None ((session c)\<lparr>cookies := [(''sid'', ''1'')]\<rparr>)
                        (join_url BASE_URL ''/api/markets'') None = Inr \<lparr>req_url = ''https://api.data.adj.news/api/markets'', req_params = None, req_headers = [(''User-Agent'', ''python-requests/2.32.3''), (''Accept-Encoding'', ''gzip, deflate''), (''Accept'', ''application/json''), (''Connection'', ''keep-alive''), (''Authorization'', ''Bearer secret'')] @ [(''Cookie'', ''sid=1'')]\<rparr>"
    by (simp add: e markets_url prepare_with_cookie)
  from s p e have "snd (snd (get (\<lambda>_. ([], Responded \<lparr>status_code = 200, reason = ''OK'', resp_url = ''https://api.data.adj.news/api/markets'', body = Loaded ''[]''\<rparr>)) None ''/api/markets'' None (\<lparr>api_key = ''secret'', session = \<lparr>headers = [(''User-Agent'', ''python-requests/2.32.3''), (''Accept-Encoding'', ''gzip, deflate''), (''Accept'', ''application/json''), (''Connection'', ''keep-alive''), (''Authorization'', ''Bearer secret'')], cookies = [(''sid'', ''1'')]\<rparr>\<rparr>, []))) = [\<lparr>req_url = ''https://api.data.adj.news/api/markets'', req_params = None, req_headers = [(''User-Agent'', ''python-requests/2.32.3''), (''Accept-Encoding'', ''gzip, deflate''), (''Accept'', ''application/json''), (''Connection'', ''keep-alive''), (''Authorization'', ''Bearer secret'')] @ [(''Cookie'', ''sid=1'')]\<rparr>]"
    by simp
  moreover from h p have "header_get (req_headers \<lparr>req_url = ''https://api.data.adj.news/api/markets'', req_params = None, req_headers = [(''User-Agent'', ''python-requests/2.32.3''), (''Accept-Encoding'', ''gzip, deflate''), (''Accept'', ''application/json''), (''Connection'', ''keep-alive''), (''Authorization'', ''Bearer secret'')] @ [(''Cookie'', ''sid=1'')]\<rparr>) ''Accept'' = Some ''application/json''
       \<and> header_get (req_headers \<lparr>req_url = ''https://api.data.adj.news/api/markets'', req_params = None, req_headers = [(''User-Agent'', ''python-requests/2.32.3''), (''Accept-Encoding'', ''gzip, deflate''), (''Accept'', ''application/json''), (''Connection'', ''keep-alive''), (''Authorization'', ''Bearer secret'')] @ [(''Cookie'', ''sid=1'')]\<rparr>) ''Authorization'' = Some ''Bearer secret''"
    by simp
  ultimately show ?thesis using c by blast
qed

text \<open>
  Claim C4 as stated fails: with a netrc entry for the API host, the request of a client
  constructed with the credential \<^verbatim>\<open>secret\<close> carries the \<^verbatim>\<open>Basic\<close> credential of the
  entry under \<^verbatim>\<open>Authorization\<close>, not \<^verbatim>\<open>Bearer secret\<close>.
\<close>

theorem netrc_replaces_bearer_credential:
  "AdjNews_init [] (Some ''secret'') Map.empty [] = (Inr \<lparr>api_key = ''secret'', session = \<lparr>headers = [(''Authorization'', ''Bearer secret''), (''Accept'', ''application/json'')], cookies = []\<rparr>\<rparr>, [])
   \<and> snd (snd (get (\<lambda>_. ([], Responded \<lparr>status_code = 200, reason = ''OK'', resp_url = ''https://api.data.adj.news/api/markets'', body = Loaded ''[]''\<rparr>)) (Some ''Basic dXNlcjpwdw=='') ''/api/markets'' None (\<lparr>api_key = ''secret'', session = \<lparr>headers = [(''Authorization'', ''Bearer secret''), (''Accept'', ''application/json'')], cookies = []\<rparr>\<rparr>, [])))
       = [\<lparr>req_url = ''https://api.data.adj.news/api/markets'', req_params = None,
           req_headers = [(''Authorization'', ''Basic dXNlcjpwdw==''),
                          (''Accept'', ''application/json'')]\<rparr>]"
  by code_simp

text \<open>
  A credential with a newline inside is accepted by the constructor, but the library
  refuses the header it makes: nothing is handed to the transport, and \<^verbatim>\<open>_get\<close> raises
  the client's error around the library's \<^verbatim>\<open>InvalidHeader\<close>.
\<close>

lemma credential_with_newline_is_not_sent:
  "snd (snd (get (\<lambda>_. ([], Raises (RequestException ''ConnectionError'' ''refused'') :: string outcome))
               None ''/api/markets'' None
               (\<lparr>api_key = (''a'' @ [CHR 0x0A] @ ''b''), session = init_session [] (''a'' @ [CHR 0x0A] @ ''b'')\<rparr>, []))) = []
   \<and> fst (get (\<lambda>_. ([], Raises (RequestException ''ConnectionError'' ''refused'') :: string outcome))
            None ''/api/markets'' None
            (\<lparr>api_key = (''a'' @ [CHR 0x0A] @ ''b''), session = init_session [] (''a'' @ [CHR 0x0A] @ ''b'')\<rparr>, []))
       = Inl (AdjNewsError (''GET https://api.data.adj.news/api/markets failed: '' @
            invalid_header_message ''value'' (''Bearer '' @ (''a'' @ [CHR 0x0A] @ ''b''))))"
  by code_simp

section \<open>The errors of the client\<close>

lemma init_error_form:
  "fst (AdjNews_init d k environ sent) = Inl e \<Longrightarrow>
     e = AdjNewsError ''ADJ_NEWS_API_KEY Not Found.''
     \<and> (k = None \<or> k = Some [])
     \<and> (environ ''ADJ_NEWS_API_KEY'' = None \<or> environ ''ADJ_NEWS_API_KEY'' = Some [])"
  by (cases k; cases "environ ''ADJ_NEWS_API_KEY''")
     (auto simp: AdjNews_init_def split: if_splits)

lemma get_error_form:
  assumes "fst (get net netrc_auth endpoint params (self, sent)) = Inl e"
  shows "(\<exists>cause. e = AdjNewsError (''GET '' @ join_url BASE_URL endpoint @ '' failed: '' @ cause))
         \<or> (\<not> is_RequestException e
             \<and> fst (try_body net netrc_auth (session self) (join_url BASE_URL endpoint) params sent)
                 = Inl e)"
proof (cases "fst (try_body net netrc_auth (session self) (join_url BASE_URL endpoint) params sent)")
  case (Inl e')
  show ?thesis
  proof (cases "is_RequestException e'")
    case True
    with Inl assms show ?thesis by (auto simp: get_fst)
  next
    case False
    with Inl assms show ?thesis by (auto simp: get_fst)
  qed
next
  case (Inr v)
  with assms show ?thesis by (simp add: get_fst)
qed

text \<open>
  Claim C8, as the code has it. The module has one error class, \<open>AdjNewsError\<close>. The
  constructor fails only with it, with the message \<^verbatim>\<open>ADJ_NEWS_API_KEY Not Found.\<close>, and
  only when neither the argument nor the environment gives a non-empty credential. A
  failure of \<^verbatim>\<open>_get\<close>, \<^verbatim>\<open>semantic_search\<close> or \<^verbatim>\<open>list_markets\<close> is either an
  \<open>AdjNewsError\<close> with a message \<^verbatim>\<open>GET <url> failed: <cause>\<close>, or an exception that is
  not a \<^verbatim>\<open>RequestException\<close> and that the library calls raised, passed on unchanged.
\<close>

theorem client_failures:
  "(fst (AdjNews_init d k environ sent0) = Inl e \<longrightarrow>
      e = AdjNewsError ''ADJ_NEWS_API_KEY Not Found.''
      \<and> (k = None \<or> k = Some [])
      \<and> (environ ''ADJ_NEWS_API_KEY'' = None \<or> environ ''ADJ_NEWS_API_KEY'' = Some []))
   \<and> (fst (get net netrc_auth endpoint params (self, sent)) = Inl e \<longrightarrow>
      (\<exists>cause. e = AdjNewsError (''GET '' @ join_url BASE_URL endpoint @ '' failed: '' @ cause))
      \<or> (\<not> is_RequestException e
          \<and> fst (try_body net netrc_auth (session self) (join_url BASE_URL endpoint) params sent)
              = Inl e))
   \<and> (fst (semantic_search net netrc_auth query l include_context (self, sent)) = Inl e \<longrightarrow>
      (\<exists>cause. e = AdjNewsError (''GET '' @ join_url BASE_URL ''/api/search/query''
                                    @ '' failed: '' @ cause))
      \<or> (\<not> is_RequestException e
          \<and> fst (try_body net netrc_auth (session self) (join_url BASE_URL ''/api/search/query'')
                   (Some (semantic_search_params query l include_context)) sent)
              = Inl e))
   \<and> (fst (list_markets net netrc_auth a (self, sent)) = Inl e \<longrightarrow>
      (\<exists>cause. e = AdjNewsError (''GET '' @ join_url BASE_URL ''/api/markets''
                                    @ '' failed: '' @ cause))
      \<or> (\<not> is_RequestException e
          \<and> fst (try_body net netrc_auth (session self) (join_url BASE_URL ''/api/markets'')
                   (Some (list_markets_params a)) sent)
              = Inl e))"
  using init_error_form[of d k environ sent0 e]
    get_error_form[of net netrc_auth endpoint params self sent e]
    get_error_form[of net netrc_auth "''/api/search/query''"
      "Some (semantic_search_params query l include_context)" self sent e]
    get_error_form[of net netrc_auth "''/api/markets''" "Some (list_markets_params a)" self sent e]
  unfolding semantic_search_def list_markets_def by blast

theorem client_failures_witness:
  "fst (AdjNews_init [] None Map.empty []) = Inl (AdjNewsError ''ADJ_NEWS_API_KEY Not Found.'')
   \<and> fst (get (\<lambda>_. ([], Raises (RequestException ''ConnectionError'' ''refused'') :: string outcome)) None ''/api/markets'' None
            (\<lparr>api_key = ''k'', session = \<lparr>headers = [], cookies = []\<rparr>\<rparr>, []))
       = Inl (AdjNewsError ''GET https://api.data.adj.news/api/markets failed: refused'')
   \<and> fst (semantic_search (\<lambda>_. ([], Raises (RequestException ''ConnectionError'' ''refused'') :: string outcome)) None ''inflation'' (10 ^ int_max_str_digits) False
            (\<lparr>api_key = ''k'', session = \<lparr>headers = [], cookies = []\<rparr>\<rparr>, []))
       = Inl (OtherException ''ValueError'' int_limit_message)
   \<and> \<not> is_RequestException (OtherException ''ValueError'' int_limit_message)
   \<and> fst (try_body (\<lambda>_. ([], Raises (RequestException ''ConnectionError'' ''refused'') :: string outcome)) None (session \<lparr>api_key = ''k'', session = \<lparr>headers = [], cookies = []\<rparr>\<rparr>)
            (join_url BASE_URL ''/api/search/query'')
            (Some (semantic_search_params ''inflation'' (10 ^ int_max_str_digits) False)) [])
       = Inl (OtherException ''ValueError'' int_limit_message)
   \<and> fst (list_markets (\<lambda>_. ([], Raises (RequestException ''ConnectionError'' ''refused'') :: string outcome)) None list_markets_defaults
            (\<lparr>api_key = ''k'', session = \<lparr>headers = [], cookies = []\<rparr>\<rparr>, []))
       = Inl (AdjNewsError ''GET https://api.data.adj.news/api/markets failed: refused'')"
proof -
  have i: "fst (AdjNews_init [] None Map.empty []) = Inl (AdjNewsError ''ADJ_NEWS_API_KEY Not Found.'')"
    by (simp add: AdjNews_init_def)
  have g: "fst (get (\<lambda>_. ([], Raises (RequestException ''ConnectionError'' ''refused'') :: string outcome)) None ''/api/markets'' None
            (\<lparr>api_key = ''k'', session = \<lparr>headers = [], cookies = []\<rparr>\<rparr>, []))
       = Inl (AdjNewsError ''GET https://api.data.adj.news/api/markets failed: refused'')"
    by (simp add: get_fst try_body_fst session_get_fst prepare_plain markets_url)
  have s: "fst (semantic_search (\<lambda>_. ([], Raises (RequestException ''ConnectionError'' ''refused'') :: string outcome)) None ''inflation'' (10 ^ int_max_str_digits) False
            (\<lparr>api_key = ''k'', session = \<lparr>headers = [], cookies = []\<rparr>\<rparr>, []))
       = Inl (OtherException ''ValueError'' int_limit_message)"
    by (simp add: semantic_search_def get_fst try_body_fst session_get_fst prepare_request_def
        encode_params_limit)
  have m: "fst (list_markets (\<lambda>_. ([], Raises (RequestException ''ConnectionError'' ''refused'') :: string outcome)) None list_markets_defaults
            (\<lparr>api_key = ''k'', session = \<lparr>headers = [], cookies = []\<rparr>\<rparr>, []))
       = Inl (AdjNewsError ''GET https://api.data.adj.news/api/markets failed: refused'')"
    by (simp add: list_markets_def get_fst try_body_fst session_get_fst prepare_request_def
        encode_params_defaults prepare_cookies_def cookie_header_def prepare_auth_def markets_url)
  have sx: "\<not> is_RequestException (OtherException ''ValueError'' int_limit_message)
      \<and> fst (try_body (\<lambda>_. ([], Raises (RequestException ''ConnectionError'' ''refused'') :: string outcome)) None (session \<lparr>api_key = ''k'', session = \<lparr>headers = [], cookies = []\<rparr>\<rparr>)
            (join_url BASE_URL ''/api/search/query'')
            (Some (semantic_search_params ''inflation'' (10 ^ int_max_str_digits) False)) [])
       = Inl (OtherException ''ValueError'' int_limit_message)"
    using s client_failures[where net = "\<lambda>_. ([], Raises (RequestException ''ConnectionError'' ''refused'') :: string outcome)" and netrc_auth = None
        and query = "''inflation''" and l = "10 ^ int_max_str_digits" and include_context = False
        and self = "\<lparr>api_key = ''k'', session = \<lparr>headers = [], cookies = []\<rparr>\<rparr>" and sent = "[]"
        and e = "OtherException ''ValueError'' int_limit_message"]
    by blast
  from i g s sx m show ?thesis by blast
qed

text \<open>
  Claim C8 as stated fails: the error of a construction without credential and the error
  of a \<^verbatim>\<open>_get\<close> whose connection is refused are of the same class, \<open>AdjNewsError\<close>; a
  caller cannot tell two kinds apart by class.
\<close>

theorem error_kinds_not_distinct:
  "fst (AdjNews_init [] None Map.empty []) = Inl (AdjNewsError ''ADJ_NEWS_API_KEY Not Found.'')
   \<and> fst (get (\<lambda>_. ([], Raises (RequestException ''ConnectionError'' ''refused'') :: string outcome)) None ''/api/markets'' None (\<lparr>api_key = ''k'', session = \<lparr>headers = [], cookies = []\<rparr>\<rparr>, []))
       = Inl (AdjNewsError ''GET https://api.data.adj.news/api/markets failed: refused'')
   \<and> exception_class (AdjNewsError ''ADJ_NEWS_API_KEY Not Found.'')
       = exception_class (AdjNewsError ''GET https://api.data.adj.news/api/markets failed: refused'')"
  by (simp add: AdjNews_init_def get_fst try_body_fst session_get_fst prepare_plain markets_url)

section \<open>The client object across calls\<close>



end
